theory Spec2Isabelle
  imports Complex_Main
begin

section \<open>Conventions of the embedding\<close>

text \<open>
  The program is a Node.js/Mongoose backend. Its controllers read documents, mutate them
  and save them; the embedding passes the database explicitly and returns errors as values.
  \<^item> A JavaScript \<open>Number\<close> that holds money (prices, totals, amounts, rates) is an exact
    rational (\<open>rat\<close>): the arithmetic of the source is kept operation by operation, its
    binary rounding error is not modelled. \<open>Number.EPSILON\<close> is the rational \<open>2\<^sup>-\<^sup>5\<^sup>2\<close>.
  \<^item> Stock quantities are integers (\<open>int\<close>): every route validates them with \<open>isInt\<close>.
  \<^item> An ObjectId is a natural number; a \<open>Date\<close> is a natural number (a clock value the
    caller passes as \<open>now\<close>).
  \<^item> A thrown \<open>ApiError\<close> is \<open>Inl\<close> of an \<open>error\<close>; the database is returned beside
    the outcome, so that what a failed request left behind is visible.
\<close>

datatype line_error =
  PartNotFound nat
  | InsufficientStock nat int int

datatype error =
  BadRequest string "line_error list"
  | NotFound string
  | Forbidden string
  | ValidationError string
  | TransactionError string
  | PersistenceError string

section \<open>Job cards (src/models/jobcard.model.js)\<close>

datatype item_type = Labour | Part | Consumable | External

record job_item =
  item_id :: nat
  item_kind :: item_type
  description :: string
  quantity :: int
  unitPrice :: rat
  discount :: rat
  item_total :: rat
  isApproved :: bool
  approvedAt :: "nat option"

datatype job_status =
  Created | Inspection | AwaitingApproval | Approved | InProgress
  | QualityCheck | Ready | Delivered | Cancelled

record status_entry =
  entry_status :: job_status
  changedAt :: nat
  changedBy :: nat
  entry_notes :: string

record billing =
  subtotal :: rat
  billing_discount :: rat
  taxRate :: rat
  taxAmount :: rat
  grandTotal :: rat

record job_card =
  customer :: nat
  assignedMechanicUserIds :: "nat list"
  jobItems :: "job_item list"
  status :: job_status
  statusHistory :: "status_entry list"
  odometerReading :: "nat option"
  actualCompletion :: "nat option"
  deliveredAt :: "nat option"
  billing :: billing

subsection \<open>calculateBilling\<close>

definition EPSILON :: rat where
  "EPSILON = 1 / 2 ^ 52"

text \<open>\<open>Math.round\<close> rounds to the nearest integer, a half towards plus infinity.\<close>

definition Math_round :: "rat \<Rightarrow> int" where
  "Math_round x = \<lfloor>x + 1 / 2\<rfloor>"

text \<open>\<open>const round2 = (n) => Math.round((n + Number.EPSILON) * 100) / 100\<close>\<close>

definition round2 :: "rat \<Rightarrow> rat" where
  "round2 n = of_int (Math_round ((n + EPSILON) * 100)) / 100"

text \<open>\<open>usedItems.reduce((sum, item) => sum + Number(item.total || 0), 0)\<close>\<close>

definition items_subtotal :: "job_item list \<Rightarrow> rat" where
  "items_subtotal items = foldl (\<lambda>sum item. sum + item_total item) 0 items"

definition usedItems :: "bool \<Rightarrow> job_card \<Rightarrow> job_item list" where
  "usedItems onlyApproved jc =
     (if onlyApproved then filter isApproved (jobItems jc) else jobItems jc)"


definition calculateBilling :: "bool \<Rightarrow> job_card \<Rightarrow> job_card" where
  "calculateBilling onlyApproved jc =
     (let sub = items_subtotal (usedItems onlyApproved jc);
          disc = max 0 (billing_discount (billing jc));
          aft = max 0 (sub - disc);
          rate = taxRate (billing jc);
          tax = (aft * rate) / 100;
          grand = aft + tax
      in jc\<lparr>billing := (billing jc)\<lparr>
            subtotal := round2 sub,
            taxAmount := round2 (max 0 tax),
            grandTotal := round2 (max 0 grand)\<rparr>\<rparr>)"

text \<open>
  The line item \<open>addJobItem\<close> builds from a request body
  (src/controllers/jobcard.controller.js, lines 648 to 659); a new item is not approved.
\<close>

definition new_job_item ::
  "nat \<Rightarrow> item_type \<Rightarrow> string \<Rightarrow> int \<Rightarrow> rat \<Rightarrow> rat \<Rightarrow> job_item" where
  "new_job_item i k d q p disc =
     (let lineTotal = of_int q * p;
          safeDiscount = min (max disc 0) lineTotal;
          tot = max 0 (lineTotal - safeDiscount)
      in \<lparr>item_id = i, item_kind = k, description = d, quantity = q, unitPrice = p,
          discount = safeDiscount, item_total = tot, isApproved = False,
          approvedAt = None\<rparr>)"

text \<open>A job card as \<open>JobCard.create\<close> leaves it: schema defaults, tax rate 18.\<close>

definition empty_job_card :: job_card where
  "empty_job_card =
     \<lparr>customer = 0, assignedMechanicUserIds = [], jobItems = [], status = Created,
      statusHistory = [], odometerReading = None, actualCompletion = None,
      deliveredAt = None,
      billing = \<lparr>subtotal = 0, billing_discount = 0, taxRate = 18, taxAmount = 0,
                 grandTotal = 0\<rparr>\<rparr>"

text \<open>The scenario of the specification: one item of price 100, quantity 2; discount 20.\<close>

definition scenario_card :: job_card where
  "scenario_card =
     empty_job_card\<lparr>
       jobItems := [new_job_item 1 Part ''brake pad'' 2 100 0],
       billing := (billing empty_job_card)\<lparr>billing_discount := 20, taxRate := 18\<rparr>\<rparr>"

subsection \<open>updateStatus\<close>

text \<open>
  The method sets the status, keeps the lifecycle timestamps (\<open>!this.actualCompletion\<close>
  is \<open>None\<close> here), appends to the history and saves; the save is the caller's write of
  the returned document into the collection.
\<close>

definition updateStatus :: "job_status \<Rightarrow> nat \<Rightarrow> string \<Rightarrow> nat \<Rightarrow> job_card \<Rightarrow> job_card" where
  "updateStatus newStatus userId notes now jc =
     (let jc1 = jc\<lparr>status := newStatus\<rparr>;
          jc2 = (if newStatus = Ready \<and> actualCompletion jc1 = None
                 then jc1\<lparr>actualCompletion := Some now\<rparr> else jc1);
          jc3 = (if newStatus = Delivered
                 then (let a = (if deliveredAt jc2 = None
                                then jc2\<lparr>deliveredAt := Some now\<rparr> else jc2)
                       in if actualCompletion a = None
                          then a\<lparr>actualCompletion := Some now\<rparr> else a)
                 else jc2)
      in jc3\<lparr>statusHistory := statusHistory jc3 @
            [\<lparr>entry_status = newStatus, changedAt = now, changedBy = userId,
              entry_notes = notes\<rparr>]\<rparr>)"


section \<open>Payments (src/models/payment.model.js)\<close>

datatype payment_type = Advance | Partial | Full | Refund

datatype payment_status = Pending | Completed | Failed | Refunded

datatype payment_method = Cash | Card | Upi | Netbanking | Wallet | Cheque | OtherMethod

record checkout_info =
  token :: "string option"
  expiresAt :: "nat option"

record refund_details =
  refundedAmount :: rat
  refundedAt :: nat
  reason :: string
  refundedBy :: nat

text \<open>
  A payment document. \<open>version\<close> is Mongoose's \<open>__v\<close>. The fields no modelled operation
  reads (payment number, transaction details, receipt, notes, timestamps) are left out.
\<close>

record payment =
  payment_id :: nat
  version :: "nat option"
  payment_jobCard :: nat
  payment_customer :: nat
  amount :: rat
  paymentType :: payment_type
  paymentMethod :: payment_method
  payment_status :: payment_status
  checkout :: "checkout_info option"
  receivedBy :: "nat option"
  refundDetails :: "refund_details option"

text \<open>The two collections the job engine and the payment ledger work on.\<close>

record shop_db =
  jobCards :: "nat \<rightharpoonup> job_card"
  payments :: "payment list"

subsection \<open>Payment.getJobCardPayments\<close>

definition completedPayments :: "payment list \<Rightarrow> nat \<Rightarrow> payment list" where
  "completedPayments ps jobCardId =
     filter (\<lambda>p. payment_jobCard p = jobCardId \<and> payment_status p = Completed) ps"

definition totalPaid :: "payment list \<Rightarrow> nat \<Rightarrow> rat" where
  "totalPaid ps jobCardId =
     foldl (\<lambda>sum p. if paymentType p = Refund then sum - amount p else sum + amount p)
       0 (completedPayments ps jobCardId)"

text \<open>
  \<open>Math.max(0, grandTotal - Number(totalPaid || 0))\<close>, as both status controllers
  compute it before a delivery.
\<close>

definition balanceDue :: "shop_db \<Rightarrow> nat \<Rightarrow> job_card \<Rightarrow> rat" where
  "balanceDue db jobCardId jc =
     max 0 (grandTotal (billing jc) - totalPaid (payments db) jobCardId)"

subsection \<open>The toJSON transform and the two ways a payment is read\<close>

text \<open>
  \<open>transform: (doc, ret) => { delete ret.__v; if (ret.checkout && ret.checkout.token)
  { delete ret.checkout.token; } return ret; }\<close>. An empty string is falsy in
  JavaScript, so an empty token is not deleted.
\<close>

definition toJSON_transform :: "payment \<Rightarrow> payment" where
  "toJSON_transform ret =
     (let ret1 = ret\<lparr>version := None\<rparr>
      in case checkout ret1 of
           None \<Rightarrow> ret1
         | Some c \<Rightarrow>
             (case token c of
                None \<Rightarrow> ret1
              | Some t \<Rightarrow>
                  if t \<noteq> [] then ret1\<lparr>checkout := Some (c\<lparr>token := None\<rparr>)\<rparr>
                  else ret1))"

text \<open>
  \<open>getPayment\<close> (GET /payments/:id) hands a Mongoose document to \<open>res.json\<close>, which
  serialises it through the schema's \<open>toJSON\<close> transform.
\<close>

definition getPayment :: "nat \<Rightarrow> nat \<Rightarrow> shop_db \<Rightarrow> error + payment" where
  "getPayment userId pid db =
     (case find (\<lambda>p. payment_id p = pid \<and> payment_customer p = userId) (payments db) of
        None \<Rightarrow> Inl (NotFound ''Payment not found'')
      | Some p \<Rightarrow> Inr (toJSON_transform p))"

text \<open>
  \<open>getPayments\<close> (GET /payments) ends its query with \<open>.lean()\<close>: Mongoose returns plain
  objects as stored, which are not documents, and \<open>res.json\<close> serialises them field by
  field; the schema's transform is not applied. Pagination is left out.
\<close>

definition getPayments :: "nat \<Rightarrow> shop_db \<Rightarrow> payment list" where
  "getPayments userId db = filter (\<lambda>p. payment_customer p = userId) (payments db)"

section \<open>Job card controllers (src/controllers/jobcard.controller.js)\<close>

text \<open>
  Request bodies are taken as the route's validator leaves them: a status is one of the
  nine of the schema. Of the plain fields \<open>updateJobCard\<close> copies (odometer reading, fuel
  level, diagnostics, mechanics' names, estimated completion, notes) the odometer reading
  stands for all: each is assigned when truthy and takes no part in any decision. The
  interpolated amount of the payment message and the notifications, which run after the
  save and whose failures are caught, are left out.
\<close>

record update_request =
  req_status :: "job_status option"
  req_odometerReading :: "nat option"

definition save_job_card :: "nat \<Rightarrow> job_card \<Rightarrow> shop_db \<Rightarrow> shop_db" where
  "save_job_card jid jc db = db\<lparr>jobCards := (jobCards db)(jid \<mapsto> jc)\<rparr>"

text \<open>\<open>if (odometerReading) jobCard.odometerReading = odometerReading\<close>: zero is falsy.\<close>

definition assign_fields :: "update_request \<Rightarrow> job_card \<Rightarrow> job_card" where
  "assign_fields req jc =
     (case req_odometerReading req of
        None \<Rightarrow> jc
      | Some n \<Rightarrow> if n \<noteq> 0 then jc\<lparr>odometerReading := Some n\<rparr> else jc)"







text \<open>\<open>findIndex\<close> and \<open>splice(itemIndex, 1)\<close>.\<close>

fun findIndex :: "('a \<Rightarrow> bool) \<Rightarrow> 'a list \<Rightarrow> nat option" where
  "findIndex P [] = None"
| "findIndex P (x # xs) =
     (if P x then Some 0 else map_option Suc (findIndex P xs))"



section \<open>Refunds (src/controllers/payment.controller.js, processRefund)\<close>

text \<open>
  \<open>processRefund\<close> awaits two writes in a row, \<open>Payment.create\<close> for the refund and
  \<open>originalPayment.save()\<close>, with no session and no transaction around them. A write
  on the database can reject (the connection drops, the server refuses the write); whether
  each of the two is accepted is the environment's choice and a parameter here. The schema's
  \<open>min: 0\<close> on \<open>amount\<close> is checked by \<open>Payment.create\<close> before it writes.
\<close>

record persistence =
  create_accepted :: bool
  save_accepted :: bool

record refund_request =
  rreq_amount :: rat
  rreq_reason :: string

definition save_payment :: "payment \<Rightarrow> payment list \<Rightarrow> payment list" where
  "save_payment p ps =
     (case findIndex (\<lambda>q. payment_id q = payment_id p) ps of
        None \<Rightarrow> ps
      | Some i \<Rightarrow> ps[i := p])"

definition processRefund ::
  "persistence \<Rightarrow> nat \<Rightarrow> nat \<Rightarrow> nat \<Rightarrow> nat \<Rightarrow> refund_request \<Rightarrow> shop_db
     \<Rightarrow> (error + payment) \<times> shop_db" where
  "processRefund env now userId fresh pid req db =
     (case find (\<lambda>p. payment_id p = pid) (payments db) of
        None \<Rightarrow> (Inl (NotFound ''Payment not found''), db)
      | Some originalPayment \<Rightarrow>
          if payment_status originalPayment \<noteq> Completed then
            (Inl (BadRequest ''Can only refund completed payments'' []), db)
          else if rreq_amount req > amount originalPayment then
            (Inl (BadRequest ''Refund amount cannot exceed original payment'' []), db)
          else
            (let details = \<lparr>refundedAmount = rreq_amount req, refundedAt = now,
                            reason = rreq_reason req, refundedBy = userId\<rparr>;
                 refund = \<lparr>payment_id = fresh, version = Some 0,
                           payment_jobCard = payment_jobCard originalPayment,
                           payment_customer = payment_customer originalPayment,
                           amount = rreq_amount req, paymentType = Refund,
                           paymentMethod = paymentMethod originalPayment,
                           payment_status = Completed, checkout = None,
                           receivedBy = Some userId, refundDetails = Some details\<rparr>
             in if rreq_amount req < 0 then
                  (Inl (ValidationError ''Amount cannot be negative''), db)
                else if \<not> create_accepted env then
                  (Inl (PersistenceError ''Payment.create''), db)
                else
                  (let db1 = db\<lparr>payments := payments db @ [refund]\<rparr>
                   in if \<not> save_accepted env then
                        (Inl (PersistenceError ''originalPayment.save''), db1)
                      else
                        (Inr refund,
                         db1\<lparr>payments :=
                           save_payment
                             (originalPayment\<lparr>payment_status := Refunded,
                                refundDetails := Some details\<rparr>)
                             (payments db1)\<rparr>))))"

section \<open>Inventory and its ledger (src/models/inventory.model.js, the transaction model)\<close>

datatype txn_type = Purchase | Sale | Return | Adjustment | Damage | Transfer

datatype reference_type = RefJobcard | RefPurchase | RefManual

record reference =
  ref_type :: reference_type
  ref_id :: "nat option"
  ref_number :: "string option"

record inventory_item =
  currentStock :: int
  minStock :: int
  costPrice :: rat
  sellingPrice :: rat

text \<open>A ledger entry; \<open>unitPrice\<close> and \<open>totalAmount\<close> are absent on manual entries.\<close>

record inventory_transaction =
  inventory :: nat
  txn_type :: txn_type
  txn_quantity :: int
  previousStock :: int
  newStock :: int
  txn_unitPrice :: "rat option"
  totalAmount :: "rat option"
  reference :: "reference option"

record stock_db =
  items :: "nat \<rightharpoonup> inventory_item"
  ledger :: "inventory_transaction list"

subsection \<open>Schema validation on save\<close>

text \<open>
  \<open>sparePart.save\<close> validates the modified path \<open>currentStock\<close> (\<open>min: 0\<close>) and the
  required paths \<open>costPrice\<close> and \<open>sellingPrice\<close> (\<open>min: 0\<close>).
  \<open>InventoryTransaction.create\<close> validates \<open>unitPrice\<close> and \<open>totalAmount\<close>
  (\<open>min: 0\<close>) where they are set.
\<close>

definition validate_item :: "inventory_item \<Rightarrow> error option" where
  "validate_item it =
     (if currentStock it < 0 then Some (ValidationError ''Stock cannot be negative'')
      else if costPrice it < 0 then Some (ValidationError ''Cost price cannot be negative'')
      else if sellingPrice it < 0
        then Some (ValidationError ''Selling price cannot be negative'')
      else None)"

definition below_min :: "rat option \<Rightarrow> bool" where
  "below_min v = (case v of None \<Rightarrow> False | Some x \<Rightarrow> x < 0)"

definition validate_transaction :: "inventory_transaction \<Rightarrow> error option" where
  "validate_transaction e =
     (if below_min (txn_unitPrice e) then Some (ValidationError ''unitPrice'')
      else if below_min (totalAmount e) then Some (ValidationError ''totalAmount'')
      else None)"

subsection \<open>The session\<close>

text \<open>
  Every stock controller opens a session, starts a transaction, and runs its reads and
  writes in it; \<open>commitTransaction\<close> makes the writes the database's, and a session
  that ends without a commit leaves the database as it was. The driver's
  \<open>abortTransaction\<close> rejects when the transaction is already aborted or committed
  (\<open>Cannot call abortTransaction twice\<close>), and an error thrown inside a \<open>catch\<close> block
  replaces the one being handled.
\<close>

datatype txn_state = TransactionInProgress | TransactionCommitted | TransactionAborted

fun abortTransaction :: "txn_state \<Rightarrow> error + txn_state" where
  "abortTransaction TransactionInProgress = Inr TransactionAborted"
| "abortTransaction TransactionAborted =
     Inl (TransactionError ''Cannot call abortTransaction twice'')"
| "abortTransaction TransactionCommitted =
     Inl (TransactionError ''Cannot call abortTransaction after calling commitTransaction'')"

text \<open>\<open>catch (error) { await session.abortTransaction(); throw error; }\<close>\<close>

definition catch_block :: "txn_state \<Rightarrow> error \<Rightarrow> error" where
  "catch_block st e = (case abortTransaction st of Inl e' \<Rightarrow> e' | Inr _ \<Rightarrow> e)"

section \<open>Stock controllers (the inventory controller)\<close>

text \<open>
  What a controller reports for one item. The low stock alert runs after the commit,
  writes nothing and catches its own failures; it is left out, as are the notes, the
  supplier and the acting user of an entry, and the numbers a message interpolates.
\<close>

record stock_result =
  res_partId :: nat
  res_previousStock :: int
  res_quantity :: int
  res_newStock :: int

text \<open>\<open>unitPrice || sparePart.costPrice\<close>: an absent or zero price gives the cost price.\<close>

definition price_or :: "rat option \<Rightarrow> rat \<Rightarrow> rat" where
  "price_or u c = (case u of None \<Rightarrow> c | Some x \<Rightarrow> if x = 0 then c else x)"

definition write_stock ::
  "nat \<Rightarrow> inventory_item \<Rightarrow> inventory_transaction \<Rightarrow> stock_db \<Rightarrow> stock_db" where
  "write_stock pid it e db = db\<lparr>items := (items db)(pid \<mapsto> it), ledger := ledger db @ [e]\<rparr>"

record add_stock_request =
  add_quantity :: int
  add_unitPrice :: "rat option"

definition addStock :: "nat \<Rightarrow> add_stock_request \<Rightarrow> stock_db \<Rightarrow> (error + stock_result) \<times> stock_db" where
  "addStock pid req db =
     (if add_quantity req = 0 \<or> add_quantity req \<le> 0 then
        (Inl (BadRequest ''Quantity must be greater than 0'' []), db)
      else
        (case items db pid of
           None \<Rightarrow>
             (Inl (catch_block TransactionInProgress (NotFound ''Spare part not found'')), db)
         | Some sparePart \<Rightarrow>
             (let prev = currentStock sparePart;
                  new = prev + add_quantity req;
                  saved = sparePart\<lparr>currentStock := new\<rparr>;
                  entry = \<lparr>inventory = pid, txn_type = Purchase,
                           txn_quantity = add_quantity req,
                           previousStock = prev, newStock = new,
                           txn_unitPrice = Some (price_or (add_unitPrice req) (costPrice sparePart)),
                           totalAmount = Some (of_int (add_quantity req)
                              * price_or (add_unitPrice req) (costPrice sparePart)),
                           reference = None\<rparr>
              in case validate_item saved of
                   Some e \<Rightarrow> (Inl (catch_block TransactionInProgress e), db)
                 | None \<Rightarrow>
                     (case validate_transaction entry of
                        Some e \<Rightarrow> (Inl (catch_block TransactionInProgress e), db)
                      | None \<Rightarrow>
                          (Inr \<lparr>res_partId = pid, res_previousStock = prev,
                                res_quantity = add_quantity req, res_newStock = new\<rparr>,
                           write_stock pid saved entry db)))))"

datatype deduct_reason = ReasonAdjustment | ReasonDamage | ReasonOther

record deduct_stock_request =
  ded_quantity :: int
  ded_reason :: "deduct_reason option"

definition deductStock ::
  "nat \<Rightarrow> deduct_stock_request \<Rightarrow> stock_db \<Rightarrow> (error + stock_result) \<times> stock_db" where
  "deductStock pid req db =
     (if ded_quantity req = 0 \<or> ded_quantity req \<le> 0 then
        (Inl (BadRequest ''Quantity must be greater than 0'' []), db)
      else
        (case items db pid of
           None \<Rightarrow>
             (Inl (catch_block TransactionInProgress (NotFound ''Spare part not found'')), db)
         | Some sparePart \<Rightarrow>
             if currentStock sparePart < ded_quantity req then
               (Inl (catch_block TransactionInProgress
                  (BadRequest ''Insufficient stock'' [])), db)
             else
               (let prev = currentStock sparePart;
                    new = prev - ded_quantity req;
                    saved = sparePart\<lparr>currentStock := new\<rparr>;
                    entry = \<lparr>inventory = pid,
                             txn_type = (if ded_reason req = Some ReasonDamage
                                         then Damage else Adjustment),
                             txn_quantity = - ded_quantity req,
                             previousStock = prev, newStock = new,
                             txn_unitPrice = None, totalAmount = None, reference = None\<rparr>
                in case validate_item saved of
                     Some e \<Rightarrow> (Inl (catch_block TransactionInProgress e), db)
                   | None \<Rightarrow>
                       (case validate_transaction entry of
                          Some e \<Rightarrow> (Inl (catch_block TransactionInProgress e), db)
                        | None \<Rightarrow>
                            (Inr \<lparr>res_partId = pid, res_previousStock = prev,
                                  res_quantity = ded_quantity req, res_newStock = new\<rparr>,
                             write_stock pid saved entry db)))))"

text \<open>\<open>newQuantity === undefined\<close> is \<open>None\<close>.\<close>

definition adjustStock :: "nat \<Rightarrow> int option \<Rightarrow> stock_db \<Rightarrow> (error + stock_result) \<times> stock_db" where
  "adjustStock pid newQuantity db =
     (case newQuantity of
        None \<Rightarrow> (Inl (BadRequest ''New quantity must be 0 or greater'' []), db)
      | Some nq \<Rightarrow>
          if nq < 0 then (Inl (BadRequest ''New quantity must be 0 or greater'' []), db)
          else
            (case items db pid of
               None \<Rightarrow>
                 (Inl (catch_block TransactionInProgress
                    (NotFound ''Spare part not found'')), db)
             | Some sparePart \<Rightarrow>
                 (let prev = currentStock sparePart;
                      difference = nq - prev;
                      saved = sparePart\<lparr>currentStock := nq\<rparr>;
                      entry = \<lparr>inventory = pid, txn_type = Adjustment,
                               txn_quantity = difference,
                               previousStock = prev, newStock = nq,
                               txn_unitPrice = None, totalAmount = None, reference = None\<rparr>
                  in case validate_item saved of
                       Some e \<Rightarrow> (Inl (catch_block TransactionInProgress e), db)
                     | None \<Rightarrow>
                         (case validate_transaction entry of
                            Some e \<Rightarrow> (Inl (catch_block TransactionInProgress e), db)
                          | None \<Rightarrow>
                              (Inr \<lparr>res_partId = pid, res_previousStock = prev,
                                    res_quantity = difference, res_newStock = nq\<rparr>,
                               write_stock pid saved entry db)))))"

subsection \<open>deductForInvoice and returnFromInvoice\<close>

record part_line =
  partId :: nat
  line_quantity :: int

record invoice_request =
  parts :: "part_line list"
  jobCardId :: "nat option"
  invoiceNumber :: "string option"

definition jobcard_reference :: "invoice_request \<Rightarrow> reference" where
  "jobcard_reference req =
     \<lparr>ref_type = RefJobcard, ref_id = jobCardId req, ref_number = invoiceNumber req\<rparr>"

definition sale_entry :: "invoice_request \<Rightarrow> part_line \<Rightarrow> inventory_item \<Rightarrow> inventory_transaction" where
  "sale_entry req part sparePart =
     \<lparr>inventory = partId part, txn_type = Sale,
      txn_quantity = - line_quantity part,
      previousStock = currentStock sparePart,
      newStock = currentStock sparePart - line_quantity part,
      txn_unitPrice = Some (sellingPrice sparePart),
      totalAmount = Some (of_int (line_quantity part) * sellingPrice sparePart),
      reference = Some (jobcard_reference req)\<rparr>"

text \<open>
  The body of the \<open>for\<close> loop of \<open>deductForInvoice\<close>, on the transaction's view of the
  database (a read in the session sees the session's earlier writes). A line that cannot
  be served is recorded in \<open>errors\<close> and skipped; a failed validation throws.
\<close>

fun deductLoop ::
  "invoice_request \<Rightarrow> part_line list \<Rightarrow> stock_db \<times> stock_result list \<times> line_error list
     \<Rightarrow> error + (stock_db \<times> stock_result list \<times> line_error list)" where
  "deductLoop req [] acc = Inr acc"
| "deductLoop req (part # rest) (work, results, errors) =
     (case items work (partId part) of
        None \<Rightarrow> deductLoop req rest (work, results, errors @ [PartNotFound (partId part)])
      | Some sparePart \<Rightarrow>
          if currentStock sparePart < line_quantity part then
            deductLoop req rest
              (work, results,
               errors @ [InsufficientStock (partId part) (currentStock sparePart)
                           (line_quantity part)])
          else
            (let saved = sparePart\<lparr>currentStock := currentStock sparePart - line_quantity part\<rparr>;
                 entry = sale_entry req part sparePart
             in case validate_item saved of
                  Some e \<Rightarrow> Inl e
                | None \<Rightarrow>
                    (case validate_transaction entry of
                       Some e \<Rightarrow> Inl e
                     | None \<Rightarrow>
                         deductLoop req rest
                           (write_stock (partId part) saved entry work,
                            results @ [\<lparr>res_partId = partId part,
                                         res_previousStock = currentStock sparePart,
                                         res_quantity = line_quantity part,
                                         res_newStock = currentStock sparePart
                                                        - line_quantity part\<rparr>],
                            errors))))"

text \<open>
  With a failing line the controller aborts and then throws inside the \<open>try\<close>; the
  \<open>catch\<close> block aborts a second time.
\<close>

definition deductForInvoice ::
  "invoice_request \<Rightarrow> stock_db \<Rightarrow> (error + stock_result list) \<times> stock_db" where
  "deductForInvoice req db =
     (if parts req = [] then (Inl (BadRequest ''Parts array is required'' []), db)
      else
        (case deductLoop req (parts req) (db, [], []) of
           Inl e \<Rightarrow> (Inl (catch_block TransactionInProgress e), db)
         | Inr (work, results, errors) \<Rightarrow>
             if errors \<noteq> [] then
               (Inl (catch_block TransactionAborted
                  (BadRequest ''Stock deduction failed'' errors)), db)
             else (Inr results, work)))"

definition return_entry :: "invoice_request \<Rightarrow> part_line \<Rightarrow> inventory_item \<Rightarrow> inventory_transaction" where
  "return_entry req part sparePart =
     \<lparr>inventory = partId part, txn_type = Return,
      txn_quantity = line_quantity part,
      previousStock = currentStock sparePart,
      newStock = currentStock sparePart + line_quantity part,
      txn_unitPrice = Some (sellingPrice sparePart),
      totalAmount = Some (of_int (line_quantity part) * sellingPrice sparePart),
      reference = Some (jobcard_reference req)\<rparr>"

text \<open>The loop of \<open>returnFromInvoice\<close>: a line whose part is not found is passed over.\<close>

fun returnLoop ::
  "invoice_request \<Rightarrow> part_line list \<Rightarrow> stock_db \<times> stock_result list
     \<Rightarrow> error + (stock_db \<times> stock_result list)" where
  "returnLoop req [] acc = Inr acc"
| "returnLoop req (part # rest) (work, results) =
     (case items work (partId part) of
        None \<Rightarrow> returnLoop req rest (work, results)
      | Some sparePart \<Rightarrow>
          (let saved = sparePart\<lparr>currentStock := currentStock sparePart + line_quantity part\<rparr>;
               entry = return_entry req part sparePart
           in case validate_item saved of
                Some e \<Rightarrow> Inl e
              | None \<Rightarrow>
                  (case validate_transaction entry of
                     Some e \<Rightarrow> Inl e
                   | None \<Rightarrow>
                       returnLoop req rest
                         (write_stock (partId part) saved entry work,
                          results @ [\<lparr>res_partId = partId part,
                                       res_previousStock = currentStock sparePart,
                                       res_quantity = line_quantity part,
                                       res_newStock = currentStock sparePart
                                                      + line_quantity part\<rparr>]))))"

definition returnFromInvoice ::
  "invoice_request \<Rightarrow> stock_db \<Rightarrow> (error + stock_result list) \<times> stock_db" where
  "returnFromInvoice req db =
     (if parts req = [] then (Inl (BadRequest ''Parts array is required'' []), db)
      else
        (case returnLoop req (parts req) (db, []) of
           Inl e \<Rightarrow> (Inl (catch_block TransactionInProgress e), db)
         | Inr (work, results) \<Rightarrow> (Inr results, work)))"

subsection \<open>Sequences of stock operations\<close>

datatype stock_op =
  AddStock nat add_stock_request
  | DeductStock nat deduct_stock_request
  | AdjustStock nat "int option"
  | DeductForInvoice invoice_request
  | ReturnFromInvoice invoice_request

fun apply_stock_op :: "stock_op \<Rightarrow> stock_db \<Rightarrow> error option \<times> stock_db" where
  "apply_stock_op (AddStock pid req) db =
     (case addStock pid req db of (Inl e, d) \<Rightarrow> (Some e, d) | (Inr _, d) \<Rightarrow> (None, d))"
| "apply_stock_op (DeductStock pid req) db =
     (case deductStock pid req db of (Inl e, d) \<Rightarrow> (Some e, d) | (Inr _, d) \<Rightarrow> (None, d))"
| "apply_stock_op (AdjustStock pid nq) db =
     (case adjustStock pid nq db of (Inl e, d) \<Rightarrow> (Some e, d) | (Inr _, d) \<Rightarrow> (None, d))"
| "apply_stock_op (DeductForInvoice req) db =
     (case deductForInvoice req db of (Inl e, d) \<Rightarrow> (Some e, d) | (Inr _, d) \<Rightarrow> (None, d))"
| "apply_stock_op (ReturnFromInvoice req) db =
     (case returnFromInvoice req db of (Inl e, d) \<Rightarrow> (Some e, d) | (Inr _, d) \<Rightarrow> (None, d))"

text \<open>Requests served one after the other; a rejected request does not stop the next.\<close>

fun run_stock_ops :: "stock_op list \<Rightarrow> stock_db \<Rightarrow> stock_db" where
  "run_stock_ops [] db = db"
| "run_stock_ops (op # ops) db = run_stock_ops ops (snd (apply_stock_op op db))"

section \<open>Properties, as predicates on the database\<close>

text \<open>No item has a negative stock.\<close>

definition stock_nonneg :: "stock_db \<Rightarrow> bool" where
  "stock_nonneg db = (\<forall>pid it. items db pid = Some it \<longrightarrow> 0 \<le> currentStock it)"


text \<open>The ledger entries of one item, oldest first.\<close>

definition ledger_entries :: "stock_db \<Rightarrow> nat \<Rightarrow> inventory_transaction list" where
  "ledger_entries db pid = filter (\<lambda>e. inventory e = pid) (ledger db)"


text \<open>Every item that has a ledger entry has the stock its ledger gives: the
  \<open>previousStock\<close> of its first entry plus the sum of the quantities of its entries.\<close>

definition ledger_sum_ok :: "stock_db \<Rightarrow> bool" where
  "ledger_sum_ok db =
     (\<forall>pid it. items db pid = Some it \<and> ledger_entries db pid \<noteq> []
        \<longrightarrow> currentStock it
              = previousStock (hd (ledger_entries db pid))
                + sum_list (map txn_quantity (ledger_entries db pid)))"

text \<open>One write of a stock controller: the item found is saved with a new stock that passed
  validation, and the entry appended for it snapshots the stock before and after.\<close>

definition stock_write ::
  "stock_db \<Rightarrow> nat \<Rightarrow> inventory_item \<Rightarrow> inventory_item \<Rightarrow> inventory_transaction \<Rightarrow> bool" where
  "stock_write db pid sp saved e =
     (items db pid = Some sp \<and> saved = sp\<lparr>currentStock := newStock e\<rparr>
      \<and> inventory e = pid \<and> previousStock e = currentStock sp
      \<and> txn_quantity e = newStock e - currentStock sp \<and> 0 \<le> newStock e)"

text \<open>A database reached from another by such writes only.\<close>

inductive writes_from :: "stock_db \<Rightarrow> stock_db \<Rightarrow> bool" where
  no_write: "writes_from db db"
| one_more: "writes_from db d \<Longrightarrow> stock_write d pid sp saved e
               \<Longrightarrow> writes_from db (write_stock pid saved e d)"





section \<open>Concrete data used by the closed theorems\<close>





text \<open>The scenario's job, ready for delivery, and its payment of 212.40.\<close>

definition full_payment :: payment where
  "full_payment =
     \<lparr>payment_id = 10, version = Some 0, payment_jobCard = 1, payment_customer = 0,
      amount = 2124 / 10, paymentType = Full, paymentMethod = Upi,
      payment_status = Completed, checkout = None, receivedBy = Some 2,
      refundDetails = None\<rparr>"

definition ready_card :: job_card where
  "ready_card =
     (calculateBilling False scenario_card)\<lparr>status := Ready, assignedMechanicUserIds := [3]\<rparr>"





text \<open>A completed payment to refund, and what the database answers to the two writes.\<close>

definition refund_db :: shop_db where
  "refund_db = \<lparr>jobCards = [1 \<mapsto> ready_card], payments = [full_payment]\<rparr>"

definition second_write_fails :: persistence where
  "second_write_fails = \<lparr>create_accepted = True, save_accepted = False\<rparr>"

definition writes_accepted :: persistence where
  "writes_accepted = \<lparr>create_accepted = True, save_accepted = True\<rparr>"

text \<open>A pending payment with a checkout token, as \<open>createRazorpayOrderForPayment\<close> stores it.\<close>

definition pending_payment :: payment where
  "pending_payment =
     \<lparr>payment_id = 20, version = Some 1, payment_jobCard = 1, payment_customer = 5,
      amount = 2124 / 10, paymentType = Full, paymentMethod = Upi,
      payment_status = Pending,
      checkout = Some \<lparr>token = Some ''ab12'', expiresAt = Some 1800\<rparr>,
      receivedBy = None, refundDetails = None\<rparr>"

definition checkout_db :: shop_db where
  "checkout_db = \<lparr>jobCards = [1 \<mapsto> ready_card], payments = [pending_payment]\<rparr>"

text \<open>Two items, with stock 5 and 10, and no ledger entry yet.\<close>

definition scenario_stock :: stock_db where
  "scenario_stock =
     \<lparr>items = [1 \<mapsto> \<lparr>currentStock = 5, minStock = 2, costPrice = 10, sellingPrice = 15\<rparr>,
               2 \<mapsto> \<lparr>currentStock = 10, minStock = 5, costPrice = 40, sellingPrice = 60\<rparr>],
      ledger = []\<rparr>"


definition scenario_batch :: invoice_request where
  "scenario_batch =
     \<lparr>parts = [\<lparr>partId = 1, line_quantity = 3\<rparr>, \<lparr>partId = 2, line_quantity = 100\<rparr>],
      jobCardId = Some 1, invoiceNumber = Some ''INV-7''\<rparr>"




section \<open>Billing: properties\<close>







lemma round2_upper: "round2 x \<le> x + EPSILON + 1 / 200"
proof -
  let ?y = "(x + EPSILON) * 100"
  have "of_int \<lfloor>?y + 1 / 2\<rfloor> \<le> ?y + 1 / 2"
    by linarith
  then have "round2 x * 100 \<le> ?y + 1 / 2"
    by (simp add: round2_def Math_round_def)
  also have "?y + 1 / 2 = (x + EPSILON + 1 / 200) * 100"
    by (simp add: algebra_simps)
  finally show ?thesis by simp
qed












section \<open>Delivery: properties\<close>




lemma updateStatus_simps [simp]:
  "status (updateStatus st u n now jc) = st"
  "jobItems (updateStatus st u n now jc) = jobItems jc"
  "billing (updateStatus st u n now jc) = billing jc"
  "statusHistory (updateStatus st u n now jc) = statusHistory jc @
     [\<lparr>entry_status = st, changedAt = now, changedBy = u, entry_notes = n\<rparr>]"
  by (simp_all add: updateStatus_def Let_def)

lemma assign_fields_simps [simp]:
  "status (assign_fields req jc) = status jc"
  "billing (assign_fields req jc) = billing jc"
  "jobItems (assign_fields req jc) = jobItems jc"
  "statusHistory (assign_fields req jc) = statusHistory jc"
  by (simp_all add: assign_fields_def split: option.splits)

lemma balanceDue_assign_fields [simp]:
  "balanceDue db j (assign_fields req jc) = balanceDue db j jc"
  by (simp add: balanceDue_def)

lemma save_job_card_simps [simp]:
  "jobCards (save_job_card jid jc db) jid = Some jc"
  "payments (save_job_card jid jc db) = payments db"
  by (simp_all add: save_job_card_def)

















section \<open>Terminal states: properties\<close>


lemma calculateBilling_simps [simp]:
  "status (calculateBilling oa jc) = status jc"
  "jobItems (calculateBilling oa jc) = jobItems jc"
  "statusHistory (calculateBilling oa jc) = statusHistory jc"
  by (simp_all add: calculateBilling_def Let_def)





section \<open>Refunds: properties\<close>

lemma processRefund_not_completed:
  assumes "find (\<lambda>p. payment_id p = pid) (payments db) = Some orig"
    "payment_status orig \<noteq> Completed"
  shows "processRefund env now u fresh pid req db
           = (Inl (BadRequest ''Can only refund completed payments'' []), db)"
  using assms by (simp add: processRefund_def)

lemma processRefund_exceeds:
  assumes "find (\<lambda>p. payment_id p = pid) (payments db) = Some orig"
    "payment_status orig = Completed" "rreq_amount req > amount orig"
  shows "processRefund env now u fresh pid req db
           = (Inl (BadRequest ''Refund amount cannot exceed original payment'' []), db)"
  using assms by (simp add: processRefund_def)

lemma processRefund_accepted:
  assumes "find (\<lambda>p. payment_id p = pid) (payments db) = Some orig"
    "payment_status orig = Completed" "0 \<le> rreq_amount req" "rreq_amount req \<le> amount orig"
    "create_accepted env" "save_accepted env"
  shows "\<exists>refund. fst (processRefund env now u fresh pid req db) = Inr refund
           \<and> paymentType refund = Refund \<and> amount refund = rreq_amount req
           \<and> payment_status refund = Completed
           \<and> payments (snd (processRefund env now u fresh pid req db))
               = save_payment (orig\<lparr>payment_status := Refunded,
                    refundDetails := refundDetails refund\<rparr>) (payments db @ [refund])"
  using assms by (simp add: processRefund_def Let_def not_less)

text \<open>
  C6. \<open>processRefund\<close> at a completed payment of 212.40 and a refund of 50: when the
  database accepts \<open>Payment.create\<close> and rejects \<open>originalPayment.save\<close>, the request
  fails, the refund record exists and the original payment is still \<open>completed\<close>; the
  two writes are not one unit. A refund of 300 is rejected and changes nothing; with both
  writes accepted the refund record is created and the original flips to \<open>refunded\<close>.
\<close>

theorem processRefund_second_write_fails:
  "map (\<lambda>p. (payment_id p, paymentType p, payment_status p, amount p)) (payments refund_db)
     = [(10, Full, Completed, 2124 / 10)]
   \<and> fst (processRefund second_write_fails 7 2 11 10
            \<lparr>rreq_amount = 50, rreq_reason = ''overcharged''\<rparr> refund_db)
       = Inl (PersistenceError ''originalPayment.save'')
   \<and> map (\<lambda>p. (payment_id p, paymentType p, payment_status p, amount p))
        (payments (snd (processRefund second_write_fails 7 2 11 10
            \<lparr>rreq_amount = 50, rreq_reason = ''overcharged''\<rparr> refund_db)))
       = [(10, Full, Completed, 2124 / 10), (11, Refund, Completed, 50)]
   \<and> processRefund writes_accepted 7 2 11 10
        \<lparr>rreq_amount = 300, rreq_reason = ''overcharged''\<rparr> refund_db
       = (Inl (BadRequest ''Refund amount cannot exceed original payment'' []), refund_db)
   \<and> map (\<lambda>p. (payment_id p, paymentType p, payment_status p, amount p))
        (payments (snd (processRefund writes_accepted 7 2 11 10
            \<lparr>rreq_amount = 50, rreq_reason = ''overcharged''\<rparr> refund_db)))
       = [(10, Full, Refunded, 2124 / 10), (11, Refund, Completed, 50)]"
  by (simp add: refund_db_def full_payment_def second_write_fails_def writes_accepted_def
      processRefund_def save_payment_def Let_def)

section \<open>Reading payments: properties\<close>

lemma toJSON_transform_hides_token:
  assumes "t1 \<noteq> []" "t2 \<noteq> []"
  shows "toJSON_transform (p\<lparr>checkout := Some \<lparr>token = Some t1, expiresAt = e\<rparr>\<rparr>)
           = toJSON_transform (p\<lparr>checkout := Some \<lparr>token = Some t2, expiresAt = e\<rparr>\<rparr>)"
  using assms by (simp add: toJSON_transform_def)

lemma toJSON_transform_no_token:
  "\<not> (\<exists>c t. checkout (toJSON_transform p) = Some c \<and> token c = Some t \<and> t \<noteq> [])"
  by (auto simp: toJSON_transform_def Let_def split: option.splits if_splits)

text \<open>
  C10. A pending payment with a checkout token, read by its customer: the list read
  \<open>getPayments\<close> (a \<open>lean\<close> query) returns the stored token; the single read
  \<open>getPayment\<close> goes through the transform and returns the payment without it.
\<close>

theorem lean_read_returns_token:
  "map (\<lambda>p. (payment_id p, map_option token (checkout p))) (getPayments 5 checkout_db)
     = [(20, Some (Some ''ab12''))]
   \<and> getPayment 5 20 checkout_db
       = Inr (pending_payment\<lparr>version := None,
                checkout := Some \<lparr>token = None, expiresAt = Some 1800\<rparr>\<rparr>)"
  by (simp add: getPayments_def getPayment_def checkout_db_def pending_payment_def
      toJSON_transform_def)

section \<open>Stock controllers: what every request does\<close>

lemma writes_from_trans:
  "writes_from b c \<Longrightarrow> writes_from a b \<Longrightarrow> writes_from a c"
  by (induction rule: writes_from.induct) (auto intro: writes_from.intros)

lemma writes_from_single:
  "stock_write db pid sp saved e \<Longrightarrow> writes_from db (write_stock pid saved e db)"
  by (rule one_more[OF no_write])

lemma validate_item_None: "validate_item it = None \<Longrightarrow> 0 \<le> currentStock it"
  by (simp add: validate_item_def split: if_splits)

subsection \<open>Invariants along writes\<close>

lemma stock_write_nonneg:
  assumes "stock_write d pid sp saved e" "stock_nonneg d"
  shows "stock_nonneg (write_stock pid saved e d)"
  using assms by (auto simp: stock_write_def stock_nonneg_def write_stock_def)

lemma writes_from_nonneg: "writes_from db db' \<Longrightarrow> stock_nonneg db \<Longrightarrow> stock_nonneg db'"
  by (induction rule: writes_from.induct) (auto intro: stock_write_nonneg)






subsection \<open>Every controller rejects without a trace or performs validated writes\<close>

lemma validate_transaction_no_price [simp]:
  "txn_unitPrice e = None \<Longrightarrow> totalAmount e = None \<Longrightarrow> validate_transaction e = None"
  by (simp add: validate_transaction_def below_min_def)

lemma addStock_outcome:
  "(\<exists>e. addStock pid req db = (Inl e, db))
   \<or> (\<exists>r sp saved e. addStock pid req db = (Inr r, write_stock pid saved e db)
         \<and> stock_write db pid sp saved e \<and> txn_type e = Purchase
         \<and> txn_quantity e = add_quantity req \<and> 0 < add_quantity req)"
proof (cases "items db pid")
  case None
  then show ?thesis by (simp add: addStock_def)
next
  case (Some sp)
  let ?saved = "sp\<lparr>currentStock := currentStock sp + add_quantity req\<rparr>"
  let ?e = "\<lparr>inventory = pid, txn_type = Purchase, txn_quantity = add_quantity req,
             previousStock = currentStock sp,
             newStock = currentStock sp + add_quantity req,
             txn_unitPrice = Some (price_or (add_unitPrice req) (costPrice sp)),
             totalAmount = Some (of_int (add_quantity req)
                * price_or (add_unitPrice req) (costPrice sp)),
             reference = None\<rparr>"
  show ?thesis
  proof (cases "add_quantity req \<le> 0 \<or> validate_item ?saved \<noteq> None
                  \<or> validate_transaction ?e \<noteq> None")
    case True
    with Some have "\<exists>e. addStock pid req db = (Inl e, db)"
      by (auto simp: addStock_def Let_def split: option.splits)
    then show ?thesis by blast
  next
    case False
    then have v: "validate_item ?saved = None" by simp
    have w: "stock_write db pid sp ?saved ?e"
      using Some validate_item_None[OF v] by (simp add: stock_write_def)
    have "\<exists>r. addStock pid req db = (Inr r, write_stock pid ?saved ?e db)"
      using Some False by (auto simp: addStock_def Let_def)
    with w False show ?thesis by fastforce
  qed
qed

lemma deductStock_outcome:
  "(\<exists>e. deductStock pid req db = (Inl e, db))
   \<or> (\<exists>r sp saved e. deductStock pid req db = (Inr r, write_stock pid saved e db)
         \<and> stock_write db pid sp saved e \<and> ded_quantity req \<le> currentStock sp
         \<and> txn_quantity e = - ded_quantity req \<and> 0 < ded_quantity req)"
proof (cases "items db pid")
  case None
  then show ?thesis by (simp add: deductStock_def)
next
  case (Some sp)
  let ?saved = "sp\<lparr>currentStock := currentStock sp - ded_quantity req\<rparr>"
  let ?e = "\<lparr>inventory = pid,
             txn_type = (if ded_reason req = Some ReasonDamage then Damage else Adjustment),
             txn_quantity = - ded_quantity req,
             previousStock = currentStock sp,
             newStock = currentStock sp - ded_quantity req,
             txn_unitPrice = None, totalAmount = None, reference = None\<rparr>"
  show ?thesis
  proof (cases "ded_quantity req \<le> 0 \<or> currentStock sp < ded_quantity req
                  \<or> validate_item ?saved \<noteq> None \<or> validate_transaction ?e \<noteq> None")
    case True
    with Some have "\<exists>e. deductStock pid req db = (Inl e, db)"
      by (auto simp: deductStock_def Let_def split: option.splits)
    then show ?thesis by blast
  next
    case False
    then have v: "validate_item ?saved = None" by simp
    have w: "stock_write db pid sp ?saved ?e"
      using Some validate_item_None[OF v] by (simp add: stock_write_def)
    have "\<exists>r. deductStock pid req db = (Inr r, write_stock pid ?saved ?e db)"
      using Some False by (simp add: deductStock_def Let_def split del: if_split)
    with w False show ?thesis by fastforce
  qed
qed

lemma adjustStock_outcome:
  "(\<exists>e. adjustStock pid nq db = (Inl e, db))
   \<or> (\<exists>r sp saved e n. adjustStock pid nq db = (Inr r, write_stock pid saved e db)
         \<and> stock_write db pid sp saved e \<and> nq = Some n \<and> newStock e = n)"
proof (cases nq)
  case None
  then show ?thesis by (simp add: adjustStock_def)
next
  case n: (Some n)
  show ?thesis
  proof (cases "items db pid")
    case None
    then show ?thesis using n by (simp add: adjustStock_def)
  next
    case (Some sp)
    let ?saved = "sp\<lparr>currentStock := n\<rparr>"
    let ?e = "\<lparr>inventory = pid, txn_type = Adjustment,
               txn_quantity = n - currentStock sp,
               previousStock = currentStock sp, newStock = n,
               txn_unitPrice = None, totalAmount = None, reference = None\<rparr>"
    show ?thesis
    proof (cases "n < 0 \<or> validate_item ?saved \<noteq> None \<or> validate_transaction ?e \<noteq> None")
      case True
      with Some n have "\<exists>e. adjustStock pid nq db = (Inl e, db)"
      by (auto simp: adjustStock_def Let_def split: option.splits)
    then show ?thesis by blast
    next
      case False
      then have v: "validate_item ?saved = None" by simp
      have w: "stock_write db pid sp ?saved ?e"
        using Some validate_item_None[OF v] by (simp add: stock_write_def)
      have "\<exists>r. adjustStock pid nq db = (Inr r, write_stock pid ?saved ?e db)"
        using Some n False by (auto simp: adjustStock_def Let_def)
      with w n show ?thesis by fastforce
    qed
  qed
qed

lemma deductLoop_writes:
  "deductLoop req ls (work, rs, es) = Inr (work', rs', es') \<Longrightarrow> writes_from work work'"
proof (induction ls arbitrary: work rs es)
  case Nil
  then show ?case by (simp add: no_write)
next
  case (Cons l ls)
  show ?case
  proof (cases "items work (partId l)")
    case None
    with Cons show ?thesis by simp
  next
    case (Some sp)
    show ?thesis
    proof (cases "currentStock sp < line_quantity l")
      case True
      with Some Cons show ?thesis by simp
    next
      case False
      let ?saved = "sp\<lparr>currentStock := currentStock sp - line_quantity l\<rparr>"
      let ?e = "sale_entry req l sp"
      from Cons.prems Some False
      have v: "validate_item ?saved = None" "validate_transaction ?e = None"
        by (auto simp: Let_def split: option.splits)
      have w: "stock_write work (partId l) sp ?saved ?e"
        using Some validate_item_None[OF v(1)] by (simp add: stock_write_def sale_entry_def)
      from Cons.prems Some False v obtain r where
        "deductLoop req ls (write_stock (partId l) ?saved ?e work, r, es) = Inr (work', rs', es')"
        by (simp add: Let_def)
      from Cons.IH[OF this] writes_from_single[OF w] show ?thesis
        by (rule writes_from_trans)
    qed
  qed
qed

lemma returnLoop_writes:
  "returnLoop req ls (work, rs) = Inr (work', rs') \<Longrightarrow> writes_from work work'"
proof (induction ls arbitrary: work rs)
  case Nil
  then show ?case by (simp add: no_write)
next
  case (Cons l ls)
  show ?case
  proof (cases "items work (partId l)")
    case None
    with Cons show ?thesis by simp
  next
    case (Some sp)
    let ?saved = "sp\<lparr>currentStock := currentStock sp + line_quantity l\<rparr>"
    let ?e = "return_entry req l sp"
    from Cons.prems Some
    have v: "validate_item ?saved = None" "validate_transaction ?e = None"
      by (auto simp: Let_def split: option.splits)
    have w: "stock_write work (partId l) sp ?saved ?e"
      using Some validate_item_None[OF v(1)] by (simp add: stock_write_def return_entry_def)
    from Cons.prems Some v obtain r where
      "returnLoop req ls (write_stock (partId l) ?saved ?e work, r) = Inr (work', rs')"
      by (simp add: Let_def)
    from Cons.IH[OF this] writes_from_single[OF w] show ?thesis
      by (rule writes_from_trans)
  qed
qed

lemma deductForInvoice_outcome:
  "(\<exists>e. deductForInvoice req db = (Inl e, db))
   \<or> (\<exists>rs db'. deductForInvoice req db = (Inr rs, db') \<and> writes_from db db')"
proof (cases "deductLoop req (parts req) (db, [], [])")
  case (Inl e)
  then show ?thesis by (simp add: deductForInvoice_def)
next
  case (Inr acc)
  then obtain work rs es where a: "acc = (work, rs, es)" by (cases acc) auto
  with Inr deductLoop_writes have "writes_from db work" by blast
  with Inr a show ?thesis by (simp add: deductForInvoice_def)
qed

lemma returnFromInvoice_outcome:
  "(\<exists>e. returnFromInvoice req db = (Inl e, db))
   \<or> (\<exists>rs db'. returnFromInvoice req db = (Inr rs, db') \<and> writes_from db db')"
proof (cases "returnLoop req (parts req) (db, [])")
  case (Inl e)
  then show ?thesis by (simp add: returnFromInvoice_def)
next
  case (Inr acc)
  then obtain work rs where a: "acc = (work, rs)" by (cases acc) auto
  with Inr returnLoop_writes have "writes_from db work" by blast
  with Inr a show ?thesis by (simp add: returnFromInvoice_def)
qed

lemma apply_stock_op_outcome:
  "(\<exists>e. apply_stock_op op db = (Some e, db))
   \<or> (\<exists>db'. apply_stock_op op db = (None, db') \<and> writes_from db db')"
proof (cases op)
  case (AddStock pid req)
  with addStock_outcome[of pid req db] show ?thesis
    by (auto intro: writes_from_single)
next
  case (DeductStock pid req)
  with deductStock_outcome[of pid req db] show ?thesis
    by (auto intro: writes_from_single)
next
  case (AdjustStock pid nq)
  with adjustStock_outcome[of pid nq db] show ?thesis
    by (auto intro: writes_from_single)
next
  case (DeductForInvoice req)
  with deductForInvoice_outcome[of req db] show ?thesis by auto
next
  case (ReturnFromInvoice req)
  with returnFromInvoice_outcome[of req db] show ?thesis by auto
qed

lemma apply_stock_op_writes: "writes_from db (snd (apply_stock_op op db))"
  using apply_stock_op_outcome[of op db] by (auto intro: no_write)

lemma run_stock_ops_writes: "writes_from db (run_stock_ops ops db)"
proof (induction ops arbitrary: db)
  case Nil
  then show ?case by (simp add: no_write)
next
  case (Cons op ops)
  from Cons[of "snd (apply_stock_op op db)"] apply_stock_op_writes[of db op]
  show ?case by (simp add: writes_from_trans)
qed

section \<open>Stock is never negative; the ledger agrees with the stock\<close>

lemma scenario_stock_nonneg: "stock_nonneg scenario_stock"
  by (auto simp: stock_nonneg_def scenario_stock_def split: if_splits)

lemma ledger_sum_ok_empty_ledger: "ledger db = [] \<Longrightarrow> ledger_sum_ok db"
  by (simp add: ledger_sum_ok_def ledger_entries_def)


lemma deductStock_insufficient:
  assumes "items db pid = Some it" "currentStock it < ded_quantity req"
  shows "\<exists>e. deductStock pid req db = (Inl e, db)"
  using assms by (simp add: deductStock_def)

lemma adjustStock_negative:
  assumes "nq < 0"
  shows "\<exists>e. adjustStock pid (Some nq) db = (Inl e, db)"
  using assms by (simp add: adjustStock_def)

text \<open>
  C3. From a database in which no stock is negative, every sequence of stock operations
  (\<open>addStock\<close>, \<open>deductStock\<close>, \<open>adjustStock\<close>, \<open>deductForInvoice\<close>,
  \<open>returnFromInvoice\<close>) ends in a database in which no stock is negative. An operation
  that is rejected leaves the database as it was; deducting more than the stock at hand
  and adjusting to a negative quantity are rejected with an error, the stock unchanged
  (not clamped to zero).
\<close>

theorem stock_never_negative:
  assumes "stock_nonneg db"
  shows "stock_nonneg (run_stock_ops ops db)
       \<and> (\<forall>op e db'. apply_stock_op op db = (Some e, db') \<longrightarrow> db' = db)
       \<and> (\<forall>pid req it.
             items db pid = Some it \<and> currentStock it < ded_quantity req
             \<longrightarrow> (\<exists>e. deductStock pid req db = (Inl e, db)))
       \<and> (\<forall>pid nq. nq < 0 \<longrightarrow> (\<exists>e. adjustStock pid (Some nq) db = (Inl e, db)))"
proof -
  have 1: "stock_nonneg (run_stock_ops ops db)"
    using run_stock_ops_writes assms by (rule writes_from_nonneg)
  have 2: "\<forall>op e db'. apply_stock_op op db = (Some e, db') \<longrightarrow> db' = db"
  proof (intro allI impI)
    fix op e db'
    assume "apply_stock_op op db = (Some e, db')"
    with apply_stock_op_outcome[of op db] show "db' = db" by auto
  qed
  from 1 2 deductStock_insufficient adjustStock_negative show ?thesis by blast
qed

theorem stock_never_negative_witness:
  "stock_nonneg scenario_stock
   \<and> stock_nonneg (run_stock_ops
        [DeductStock 1 \<lparr>ded_quantity = 7, ded_reason = None\<rparr>,
         AdjustStock 2 (Some (- 4)),
         DeductStock 1 \<lparr>ded_quantity = 5, ded_reason = Some ReasonDamage\<rparr>] scenario_stock)
   \<and> (\<exists>e. deductStock 1 \<lparr>ded_quantity = 7, ded_reason = None\<rparr> scenario_stock
            = (Inl e, scenario_stock))
   \<and> (\<exists>e. adjustStock 2 (Some (- 4)) scenario_stock = (Inl e, scenario_stock))"
proof -
  let ?ops = "[DeductStock 1 \<lparr>ded_quantity = 7, ded_reason = None\<rparr>,
         AdjustStock 2 (Some (- 4)),
         DeductStock 1 \<lparr>ded_quantity = 5, ded_reason = Some ReasonDamage\<rparr>]"
  note t = stock_never_negative[OF scenario_stock_nonneg, of ?ops]
  have a: "stock_nonneg (run_stock_ops ?ops scenario_stock)"
    using t by (rule conjunct1)
  have d: "\<forall>pid req it.
             items scenario_stock pid = Some it \<and> currentStock it < ded_quantity req
             \<longrightarrow> (\<exists>e. deductStock pid req scenario_stock = (Inl e, scenario_stock))"
    using t by (elim conjE)
  have j: "\<forall>pid nq. nq < 0
             \<longrightarrow> (\<exists>e. adjustStock pid (Some nq) scenario_stock = (Inl e, scenario_stock))"
    using t by (elim conjE)
  have i: "items scenario_stock 1
             = Some \<lparr>currentStock = 5, minStock = 2, costPrice = 10, sellingPrice = 15\<rparr>
           \<and> currentStock \<lparr>currentStock = 5, minStock = 2, costPrice = 10, sellingPrice = 15\<rparr>
               < ded_quantity \<lparr>ded_quantity = 7, ded_reason = None\<rparr>"
    by (simp add: scenario_stock_def)
  have n: "(- 4 :: int) < 0" by simp
  from scenario_stock_nonneg a d[rule_format, OF i] j[rule_format, OF n]
  show ?thesis by (intro conjI)
qed





section \<open>deductForInvoice: properties\<close>
















text \<open>
  What the caller of a failed batch receives: the second \<open>abortTransaction\<close>, in the
  \<open>catch\<close> block, rejects, and its error replaces the one that lists the failing lines.
\<close>

lemma deductForInvoice_failed_batch_error:
  "fst (deductForInvoice scenario_batch scenario_stock)
     = Inl (TransactionError ''Cannot call abortTransaction twice'')"
  by (simp add: scenario_batch_def scenario_stock_def deductForInvoice_def write_stock_def
      sale_entry_def validate_item_def validate_transaction_def below_min_def Let_def
      catch_block_def)




section \<open>returnFromInvoice: properties\<close>








end
